theory Spec2Isabelle
  imports Main "HOL-Library.Sublist"
begin

section \<open>Helper functions of \<^verbatim>\<open>app/utils.ts\<close>\<close>

text \<open>
  The file \<^verbatim>\<open>app/utils.ts\<close> holds the redirect sanitizer \<^verbatim>\<open>safeRedirect\<close> and the
  functions that build and parse per-user DNS names (\<^verbatim>\<open>cleanUsername\<close>,
  \<^verbatim>\<open>buildUserBaseDomain\<close>, \<^verbatim>\<open>buildDomain\<close>, \<^verbatim>\<open>getSubdomainFromFqdn\<close>).

  A JavaScript string is a sequence of UTF-16 code units. It is modelled as a
  \<^typ>\<open>string\<close>, one \<^typ>\<open>char\<close> standing for one code unit: every string operation
  used here (\<^verbatim>\<open>length\<close>, concatenation, \<^verbatim>\<open>startsWith\<close>, \<^verbatim>\<open>endsWith\<close>,
  \<^verbatim>\<open>substring\<close>, the replacement of a one-unit pattern) works unit by unit and
  looks at no unit other than for equality.
\<close>

subsection \<open>The string methods the code calls\<close>

text \<open>
  \<^verbatim>\<open>s.startsWith(searchString)\<close> with the default position 0: false when the search
  string is longer than \<open>s\<close>, otherwise the comparison of the first units.
\<close>

definition startsWith :: "string \<Rightarrow> string \<Rightarrow> bool" where
  "startsWith s searchString =
     (let len = length s; searchLength = length searchString
      in if searchLength > len then False
         else take searchLength s = searchString)"

text \<open>
  \<^verbatim>\<open>s.endsWith(searchString)\<close> with the default end position \<open>s.length\<close>: the start
  is \<open>len - searchLength\<close>, false when that is negative, otherwise the comparison
  of the units from the start on.
\<close>

definition endsWith :: "string \<Rightarrow> string \<Rightarrow> bool" where
  "endsWith s searchString =
     (let len = int (length s); searchLength = int (length searchString);
          start = len - searchLength
      in if start < 0 then False
         else drop (nat start) s = searchString)"

text \<open>
  \<^verbatim>\<open>s.substring(start, end)\<close>: both arguments are clamped to \<open>[0, s.length]\<close> and
  swapped when the first is the larger.
\<close>

definition substring :: "string \<Rightarrow> int \<Rightarrow> int \<Rightarrow> string" where
  "substring s intStart intEnd =
     (let len = int (length s);
          finalStart = min (max intStart 0) len;
          finalEnd = min (max intEnd 0) len;
          from = min finalStart finalEnd;
          to = max finalStart finalEnd
      in take (nat (to - from)) (drop (nat from) s))"

text \<open>
  \<^verbatim>\<open>s.replace(/c/g, r)\<close> for a pattern that matches exactly the one unit \<open>c\<close> and a
  replacement \<open>r\<close> without \<^verbatim>\<open>$\<close> patterns: the scan replaces every occurrence.
\<close>

primrec replace_g :: "char \<Rightarrow> string \<Rightarrow> string \<Rightarrow> string" where
  "replace_g c r [] = []"
| "replace_g c r (x # xs) = (if x = c then r else [x]) @ replace_g c r xs"

subsection \<open>The environment and template literals\<close>

text \<open>
  \<^verbatim>\<open>process.env\<close> maps variable names to strings; a variable that is not set reads
  as \<^verbatim>\<open>undefined\<close>.
\<close>

type_synonym process_env = "string \<rightharpoonup> string"

text \<open>
  A template literal converts an interpolated value with \<^verbatim>\<open>ToString\<close>: a string is
  itself and \<^verbatim>\<open>undefined\<close> is the nine units \<^verbatim>\<open>undefined\<close>.
\<close>

definition ToString :: "string option \<Rightarrow> string" where
  "ToString v = (case v of None \<Rightarrow> ''undefined'' | Some s \<Rightarrow> s)"

subsection \<open>Domain names\<close>

datatype error = Error string

definition cleanUsername :: "string \<Rightarrow> string" where
  "cleanUsername username = replace_g (CHR ''.'') '''' username"

definition buildUserBaseDomain :: "process_env \<Rightarrow> string \<Rightarrow> string" where
  "buildUserBaseDomain env username =
     cleanUsername username @ ''.'' @ ToString (env ''ROOT_DOMAIN'')"

text \<open>
  The parameter \<^verbatim>\<open>name?: string\<close> is optional: \<open>None\<close> is the omitted argument.
  The test \<^verbatim>\<open>if (name)\<close> holds for a string that is present and not empty.
\<close>

definition buildDomain :: "process_env \<Rightarrow> string \<Rightarrow> string option \<Rightarrow> string" where
  "buildDomain env username name =
     (case name of
        Some n \<Rightarrow>
          if n \<noteq> '''' then n @ ''.'' @ buildUserBaseDomain env username
          else buildUserBaseDomain env username
      | None \<Rightarrow> buildUserBaseDomain env username)"

definition getSubdomainFromFqdn :: "process_env \<Rightarrow> string \<Rightarrow> string \<Rightarrow> error + string" where
  "getSubdomainFromFqdn env username fqdn =
     (let baseDomain = buildUserBaseDomain env username
      in if \<not> endsWith fqdn (''.'' @ baseDomain)
         then Inl (Error ''fqdn is not a subdomain of user's base domain'')
         else
           let subdomain =
                 substring fqdn 0 (int (length fqdn) - (int (length baseDomain) + 1))
           in Inr subdomain)"

subsection \<open>Redirects\<close>

text \<open>
  The first parameter of \<^verbatim>\<open>safeRedirect\<close> has the type
  \<^verbatim>\<open>FormDataEntryValue | string | null | undefined\<close>, where a
  \<^verbatim>\<open>FormDataEntryValue\<close> is a string or a \<^verbatim>\<open>File\<close> (kept here with its name).
\<close>

datatype entry_value = Str string | FileValue string | Null | Undefined

text \<open>What \<^verbatim>\<open>!to\<close> negates: only the empty string, \<^verbatim>\<open>null\<close> and \<^verbatim>\<open>undefined\<close> are falsy.\<close>

fun truthy :: "entry_value \<Rightarrow> bool" where
  "truthy (Str s) = (s \<noteq> '''')"
| "truthy (FileValue f) = True"
| "truthy Null = False"
| "truthy Undefined = False"

fun typeof :: "entry_value \<Rightarrow> string" where
  "typeof (Str s) = ''string''"
| "typeof (FileValue f) = ''object''"
| "typeof Null = ''object''"
| "typeof Undefined = ''undefined''"

definition DEFAULT_REDIRECT :: string where
  "DEFAULT_REDIRECT = ''/''"

text \<open>
  The second parameter has a default value, taken when the argument is omitted
  (\<open>None\<close>). After the first test \<^verbatim>\<open>to\<close> is a string, the only case in which the
  code goes on to \<^verbatim>\<open>to.startsWith\<close>.
\<close>

definition safeRedirect :: "entry_value \<Rightarrow> string option \<Rightarrow> string" where
  "safeRedirect to defaultRedirectArg =
     (let defaultRedirect =
            (case defaultRedirectArg of None \<Rightarrow> DEFAULT_REDIRECT | Some d \<Rightarrow> d)
      in if \<not> truthy to \<or> typeof to \<noteq> ''string'' then defaultRedirect
         else
           (case to of
              Str s \<Rightarrow>
                if \<not> startsWith s ''/'' \<or> startsWith s ''//'' then defaultRedirect
                else s
            | _ \<Rightarrow> defaultRedirect))"

subsection \<open>Notions used to state the properties\<close>

text \<open>The environment of the examples: the root domain is \<^verbatim>\<open>starchart.com\<close>.\<close>

definition starchart_env :: process_env where
  "starchart_env = [''ROOT_DOMAIN'' \<mapsto> ''starchart.com'']"

text \<open>
  The two \<^verbatim>\<open>startsWith\<close> tests of \<^verbatim>\<open>safeRedirect\<close> and its test for the empty
  string, read on lists: the string is not empty, starts with a slash and does not
  start with two. This is what the code checks, no more: it says nothing of where a
  browser takes such a string.
\<close>

definition passes_slash_test :: "string \<Rightarrow> bool" where
  "passes_slash_test s = (s \<noteq> '''' \<and> prefix ''/'' s \<and> \<not> prefix ''//'' s)"

section \<open>The string methods are the list operations\<close>

lemma startsWith_prefix: "startsWith s t = prefix t s"
proof
  assume "startsWith s t"
  then have "take (length t) s = t"
    by (simp add: startsWith_def Let_def split: if_splits)
  then show "prefix t s"
    by (metis take_is_prefix)
next
  assume "prefix t s"
  then obtain zs where "s = t @ zs"
    by (auto simp: prefix_def)
  then show "startsWith s t"
    by (simp add: startsWith_def Let_def)
qed

lemma endsWith_suffix: "endsWith s t = suffix t s"
proof
  assume "endsWith s t"
  then have "drop (length s - length t) s = t"
    by (simp add: endsWith_def Let_def nat_diff_distrib' split: if_splits)
  then show "suffix t s"
    by (metis suffix_drop)
next
  assume "suffix t s"
  then obtain zs where "s = zs @ t"
    by (auto simp: suffix_def)
  then show "endsWith s t"
    by (simp add: endsWith_def Let_def)
qed

lemma substring_from_0: "0 \<le> e \<Longrightarrow> substring s 0 e = take (nat e) s"
  by (simp add: substring_def Let_def min_def max_def)

lemma replace_g_empty: "replace_g c [] s = filter (\<lambda>x. x \<noteq> c) s"
  by (induction s) simp_all

lemma cleanUsername_filter: "cleanUsername u = filter (\<lambda>x. x \<noteq> CHR ''.'') u"
  by (simp add: cleanUsername_def replace_g_empty)

lemma length_filter_neq: "length (filter (\<lambda>x. x \<noteq> c) s) + count_list s c = length s"
  by (induction s) simp_all

text \<open>The two outcomes of \<^verbatim>\<open>getSubdomainFromFqdn\<close>, by whether the suffix is there.\<close>

lemma getSubdomainFromFqdn_cases:
  "getSubdomainFromFqdn env u fqdn =
     (if suffix (''.'' @ buildUserBaseDomain env u) fqdn
      then Inr (take (length fqdn - (length (buildUserBaseDomain env u) + 1)) fqdn)
      else Inl (Error ''fqdn is not a subdomain of user's base domain''))"
  by (auto simp: getSubdomainFromFqdn_def Let_def endsWith_suffix substring_from_0 suffix_def)

lemma getSubdomainFromFqdn_append:
  "getSubdomainFromFqdn env u (p @ ''.'' @ buildUserBaseDomain env u) = Inr p"
  by (simp add: getSubdomainFromFqdn_cases suffix_def)

text \<open>The values of the examples.\<close>

lemma base_john_smith:
  "buildUserBaseDomain starchart_env ''john.smith'' = ''johnsmith.starchart.com''"
  by (simp add: buildUserBaseDomain_def cleanUsername_def ToString_def starchart_env_def)

text \<open>\<^verbatim>\<open>safeRedirect\<close> by cases, with the tests read as list prefixes.\<close>

lemma passes_slash_test_startsWith:
  "passes_slash_test s = (s \<noteq> '''' \<and> startsWith s ''/'' \<and> \<not> startsWith s ''//'')"
  by (simp add: passes_slash_test_def startsWith_prefix)

lemma safeRedirect_Some:
  "safeRedirect to (Some d) = (case to of Str s \<Rightarrow> if passes_slash_test s then s else d | _ \<Rightarrow> d)"
  by (cases to) (auto simp: safeRedirect_def passes_slash_test_startsWith)

lemma safeRedirect_None: "safeRedirect to None = safeRedirect to (Some ''/'')"
  by (simp add: safeRedirect_def DEFAULT_REDIRECT_def)

section \<open>Properties of the domain names\<close>

text \<open>
  C5. \<^verbatim>\<open>cleanUsername\<close> is defined on every string; its result holds no dot, and
  its length is the length of the username minus the number of dots in the username
  (a number that is at most that length, so the subtraction is the true difference).
\<close>

theorem cleanUsername_no_dots:
  "CHR ''.'' \<notin> set (cleanUsername u)
   \<and> length (cleanUsername u) = length u - count_list u (CHR ''.'')
   \<and> count_list u (CHR ''.'') \<le> length u"
proof -
  have "length (cleanUsername u) + count_list u (CHR ''.'') = length u"
    by (simp add: cleanUsername_filter length_filter_neq)
  then show ?thesis
    by (simp add: cleanUsername_filter)
qed

text \<open>
  C4. \<^verbatim>\<open>buildDomain(u, n)\<close> is \<open>n\<close>, a dot and the user's base domain when \<open>n\<close> is
  given and not empty, and the base domain alone when \<open>n\<close> is omitted or empty. The
  base domain is the username without its dots, a dot and the configured root domain.
\<close>

theorem buildDomain_cases:
  "(n \<noteq> '''' \<longrightarrow> buildDomain env u (Some n) = n @ ''.'' @ buildUserBaseDomain env u)
   \<and> buildDomain env u None = buildUserBaseDomain env u
   \<and> buildDomain env u (Some '''') = buildUserBaseDomain env u
   \<and> (env ''ROOT_DOMAIN'' = Some rootDomain \<longrightarrow>
        buildUserBaseDomain env u = filter (\<lambda>c. c \<noteq> CHR ''.'') u @ ''.'' @ rootDomain)"
  by (simp add: buildDomain_def buildUserBaseDomain_def ToString_def cleanUsername_filter)

text \<open>The four cases of C4 for the user \<^verbatim>\<open>john.smith\<close>.\<close>

theorem buildDomain_cases_witness:
  "''www'' \<noteq> ''''
   \<and> buildDomain starchart_env ''john.smith'' (Some ''www'') = ''www.johnsmith.starchart.com''
   \<and> buildDomain starchart_env ''john.smith'' None = ''johnsmith.starchart.com''
   \<and> buildDomain starchart_env ''john.smith'' (Some '''') = ''johnsmith.starchart.com''
   \<and> starchart_env ''ROOT_DOMAIN'' = Some ''starchart.com''
   \<and> buildUserBaseDomain starchart_env ''john.smith'' = ''johnsmith.starchart.com''"
proof -
  have rd: "starchart_env ''ROOT_DOMAIN'' = Some ''starchart.com''"
    by (simp add: starchart_env_def)
  from buildDomain_cases [of "''www''" starchart_env "''john.smith''" "''starchart.com''"] rd
  show ?thesis by simp
qed

text \<open>
  C6. Every domain that \<^verbatim>\<open>buildDomain\<close> produces is the user's base domain, or the
  record name it was given (which is then not empty), a dot and the base domain.
\<close>

theorem buildDomain_shape:
  "buildDomain env u n = buildUserBaseDomain env u
   \<or> (\<exists>r. n = Some r \<and> r \<noteq> '''' \<and> buildDomain env u n = r @ ''.'' @ buildUserBaseDomain env u)"
  by (simp add: buildDomain_def split: option.splits)

text \<open>
  C7. When \<^verbatim>\<open>ROOT_DOMAIN\<close> is not set, \<^verbatim>\<open>buildUserBaseDomain\<close> still returns a
  string: the username without its dots followed by \<^verbatim>\<open>.undefined\<close>.
\<close>

theorem buildUserBaseDomain_unset:
  "env ''ROOT_DOMAIN'' = None \<Longrightarrow>
     buildUserBaseDomain env u = cleanUsername u @ ''.undefined''"
  by (simp add: buildUserBaseDomain_def ToString_def)

text \<open>C7 in the empty environment.\<close>

theorem buildUserBaseDomain_unset_witness:
  "(Map.empty :: process_env) ''ROOT_DOMAIN'' = None
   \<and> buildUserBaseDomain Map.empty ''john.smith'' = ''johnsmith.undefined''"
  using buildUserBaseDomain_unset [of Map.empty "''john.smith''"]
  by (simp add: cleanUsername_def)

text \<open>
  C8. With the root domain \<^verbatim>\<open>starchart.com\<close>: the base domain of \<^verbatim>\<open>john.smith\<close> is
  \<^verbatim>\<open>johnsmith.starchart.com\<close>, the domain of its record \<^verbatim>\<open>www\<close> is
  \<^verbatim>\<open>www.johnsmith.starchart.com\<close>, the subdomain of that name is \<^verbatim>\<open>www\<close>, and
  \<^verbatim>\<open>www.otheruser.starchart.com\<close> is refused with the error.
\<close>

theorem john_smith_examples:
  "buildUserBaseDomain starchart_env ''john.smith'' = ''johnsmith.starchart.com''
   \<and> buildDomain starchart_env ''john.smith'' (Some ''www'') = ''www.johnsmith.starchart.com''
   \<and> getSubdomainFromFqdn starchart_env ''john.smith'' ''www.johnsmith.starchart.com'' = Inr ''www''
   \<and> getSubdomainFromFqdn starchart_env ''john.smith'' ''www.otheruser.starchart.com''
       = Inl (Error ''fqdn is not a subdomain of user's base domain'')"
  by (simp add: buildUserBaseDomain_def cleanUsername_def ToString_def starchart_env_def
      buildDomain_def getSubdomainFromFqdn_def endsWith_def substring_def Let_def)

section \<open>Properties of \<^verbatim>\<open>getSubdomainFromFqdn\<close>\<close>

text \<open>
  C2. \<^verbatim>\<open>getSubdomainFromFqdn(u, fqdn)\<close> raises exactly when \<open>fqdn\<close> does not end with
  a dot followed by the base domain of \<open>u\<close>, and what it raises is always the same
  error. The other three functions return a string on every input: the source has no
  \<^verbatim>\<open>throw\<close> in them, and their models are total functions into \<^typ>\<open>string\<close>.
\<close>

theorem getSubdomainFromFqdn_raises_iff:
  "((\<exists>e. getSubdomainFromFqdn env u fqdn = Inl e)
      = (\<not> suffix (''.'' @ buildUserBaseDomain env u) fqdn))
   \<and> (getSubdomainFromFqdn env u fqdn = Inl e \<longrightarrow>
        e = Error ''fqdn is not a subdomain of user's base domain'')"
  by (auto simp: getSubdomainFromFqdn_cases)

text \<open>C2 on a name of another user, which is refused, and on a name of the user's own.\<close>

theorem getSubdomainFromFqdn_raises_iff_witness:
  "\<not> suffix (''.'' @ buildUserBaseDomain starchart_env ''john.smith'') ''www.otheruser.starchart.com''
   \<and> (\<exists>e. getSubdomainFromFqdn starchart_env ''john.smith'' ''www.otheruser.starchart.com'' = Inl e)
   \<and> suffix (''.'' @ buildUserBaseDomain starchart_env ''john.smith'') ''www.johnsmith.starchart.com''
   \<and> (\<nexists>e. getSubdomainFromFqdn starchart_env ''john.smith'' ''www.johnsmith.starchart.com'' = Inl e)"
proof -
  have no: "\<not> suffix (''.'' @ buildUserBaseDomain starchart_env ''john.smith'')
              ''www.otheruser.starchart.com''"
    by (simp add: base_john_smith suffix_to_prefix)
  have yes: "suffix (''.'' @ buildUserBaseDomain starchart_env ''john.smith'')
              ''www.johnsmith.starchart.com''"
    by (simp add: base_john_smith suffix_to_prefix)
  from getSubdomainFromFqdn_raises_iff
         [of starchart_env "''john.smith''" "''www.otheruser.starchart.com''"]
       getSubdomainFromFqdn_raises_iff
         [of starchart_env "''john.smith''" "''www.johnsmith.starchart.com''"]
       no yes
  show ?thesis by blast
qed

text \<open>
  C3. When \<open>fqdn\<close> ends with a dot followed by the base domain of \<open>u\<close>,
  \<^verbatim>\<open>getSubdomainFromFqdn(u, fqdn)\<close> returns the units of \<open>fqdn\<close> before that suffix,
  unchanged: the result followed by the suffix is \<open>fqdn\<close> itself.
\<close>

theorem getSubdomainFromFqdn_strips_suffix:
  assumes "suffix (''.'' @ buildUserBaseDomain env u) fqdn"
  shows "\<exists>p. getSubdomainFromFqdn env u fqdn = Inr p
           \<and> p = take (length fqdn - length (''.'' @ buildUserBaseDomain env u)) fqdn
           \<and> fqdn = p @ ''.'' @ buildUserBaseDomain env u"
  using assms by (auto simp: getSubdomainFromFqdn_cases suffix_def)

text \<open>C3 on a label in capitals, which comes back in capitals.\<close>

theorem getSubdomainFromFqdn_strips_suffix_witness:
  "suffix (''.'' @ buildUserBaseDomain starchart_env ''john.smith'') ''WWW.johnsmith.starchart.com''
   \<and> getSubdomainFromFqdn starchart_env ''john.smith'' ''WWW.johnsmith.starchart.com'' = Inr ''WWW''"
proof -
  have yes: "suffix (''.'' @ buildUserBaseDomain starchart_env ''john.smith'')
              ''WWW.johnsmith.starchart.com''"
    by (simp add: base_john_smith suffix_to_prefix)
  from getSubdomainFromFqdn_strips_suffix [OF yes] yes
  show ?thesis by (simp add: base_john_smith)
qed

text \<open>
  C9. A result of \<^verbatim>\<open>getSubdomainFromFqdn(u, fqdn)\<close>, followed by a dot and the base
  domain of \<open>u\<close>, is \<open>fqdn\<close>.
\<close>

theorem getSubdomainFromFqdn_rejoin:
  "getSubdomainFromFqdn env u fqdn = Inr s \<Longrightarrow> s @ ''.'' @ buildUserBaseDomain env u = fqdn"
  by (auto simp: getSubdomainFromFqdn_cases suffix_def split: if_splits)

text \<open>C9 on \<^verbatim>\<open>www.johnsmith.starchart.com\<close>.\<close>

theorem getSubdomainFromFqdn_rejoin_witness:
  "getSubdomainFromFqdn starchart_env ''john.smith'' ''www.johnsmith.starchart.com'' = Inr ''www''
   \<and> ''www'' @ ''.'' @ buildUserBaseDomain starchart_env ''john.smith''
       = ''www.johnsmith.starchart.com''"
proof -
  have ok: "getSubdomainFromFqdn starchart_env ''john.smith'' ''www.johnsmith.starchart.com''
              = Inr ''www''"
    by (simp add: getSubdomainFromFqdn_def base_john_smith endsWith_def substring_def Let_def)
  from getSubdomainFromFqdn_rejoin [OF ok] ok
  show ?thesis by simp
qed

text \<open>
  C1, as amended. For every username and every label that is not empty,
  \<^verbatim>\<open>getSubdomainFromFqdn\<close> gives the label back from the domain that
  \<^verbatim>\<open>buildDomain\<close> built with it. For the empty label \<^verbatim>\<open>buildDomain\<close> builds the base
  domain, which \<^verbatim>\<open>getSubdomainFromFqdn\<close> refuses.
\<close>

theorem getSubdomainFromFqdn_roundtrip:
  "(n \<noteq> '''' \<longrightarrow> getSubdomainFromFqdn env u (buildDomain env u (Some n)) = Inr n)
   \<and> (n = '''' \<longrightarrow> getSubdomainFromFqdn env u (buildDomain env u (Some n))
         = Inl (Error ''fqdn is not a subdomain of user's base domain''))"
  by (simp add: buildDomain_def getSubdomainFromFqdn_append getSubdomainFromFqdn_cases suffix_def)

text \<open>The round trip of C1 on the label \<^verbatim>\<open>www\<close>.\<close>

theorem getSubdomainFromFqdn_roundtrip_witness:
  "''www'' \<noteq> ''''
   \<and> getSubdomainFromFqdn starchart_env ''john.smith''
        (buildDomain starchart_env ''john.smith'' (Some ''www'')) = Inr ''www''"
  using getSubdomainFromFqdn_roundtrip [of "''www''" starchart_env "''john.smith''"]
  by simp

text \<open>
  C1 as stated fails at the empty label: the domain built for \<^verbatim>\<open>john.smith\<close> and the
  empty label is the base domain, and asking for its subdomain raises the error
  instead of returning the empty label.
\<close>

theorem getSubdomainFromFqdn_roundtrip_empty_label_counterexample:
  "buildDomain starchart_env ''john.smith'' (Some '''') = ''johnsmith.starchart.com''
   \<and> getSubdomainFromFqdn starchart_env ''john.smith''
        (buildDomain starchart_env ''john.smith'' (Some ''''))
      = Inl (Error ''fqdn is not a subdomain of user's base domain'')
   \<and> getSubdomainFromFqdn starchart_env ''john.smith''
        (buildDomain starchart_env ''john.smith'' (Some '''')) \<noteq> Inr ''''"
  by (simp add: buildDomain_def base_john_smith getSubdomainFromFqdn_cases suffix_def)

section \<open>Properties of \<^verbatim>\<open>safeRedirect\<close>\<close>

text \<open>
  Which branch \<^verbatim>\<open>safeRedirect(to, d)\<close> takes: it returns \<open>to\<close> when \<open>to\<close> is a string
  that passes the slash test, and \<open>d\<close> in every other case (another string, a file,
  \<^verbatim>\<open>null\<close>, \<^verbatim>\<open>undefined\<close>); so, for a string \<open>to\<close> other than \<open>d\<close>, the result is
  \<open>to\<close> exactly when \<open>to\<close> passes the test. An omitted \<open>d\<close> is \<^verbatim>\<open>/\<close>.
\<close>

lemma safeRedirect_branches:
  "(to = Str s \<and> passes_slash_test s \<longrightarrow> safeRedirect to (Some d) = s)
   \<and> ((\<nexists>t. to = Str t \<and> passes_slash_test t) \<longrightarrow> safeRedirect to (Some d) = d)
   \<and> (to = Str s \<and> s \<noteq> d \<longrightarrow> (safeRedirect to (Some d) = s) = passes_slash_test s)
   \<and> safeRedirect to None = safeRedirect to (Some ''/'')"
  by (cases to) (auto simp: safeRedirect_Some safeRedirect_None)

text \<open>
  The branches on a path, on a protocol-relative and an absolute URL, on the empty
  string, on a file, on \<^verbatim>\<open>null\<close> and on \<^verbatim>\<open>undefined\<close>.
\<close>

lemma safeRedirect_examples:
  "safeRedirect (Str ''/dashboard'') (Some ''/login'') = ''/dashboard''
   \<and> safeRedirect (Str ''//evil.com'') (Some ''/login'') = ''/login''
   \<and> safeRedirect (Str ''https://evil.com'') (Some ''/login'') = ''/login''
   \<and> safeRedirect (Str '''') (Some ''/login'') = ''/login''
   \<and> safeRedirect (FileValue ''/a.txt'') (Some ''/login'') = ''/login''
   \<and> safeRedirect Null (Some ''/login'') = ''/login''
   \<and> safeRedirect Undefined None = ''/''"
  by (simp add: safeRedirect_Some safeRedirect_None passes_slash_test_def)

text \<open>
  C10. The claim concludes that the result of \<^verbatim>\<open>safeRedirect(to, d)\<close> is always a
  path on the same origin when \<open>d\<close> is one, as the comment above the function
  promises (it avoids open redirects). The code does not keep this: it returns
  unchanged a slash followed by a backslash and a host name, and a slash followed
  by a tab, a slash and a host name. Both start with one slash and not with two, so
  they pass the tests; with the backslash written as a slash, or with the tab
  removed, each is the protocol-relative \<^verbatim>\<open>//evil.com\<close>, which the code does refuse.
\<close>

theorem safeRedirect_returns_backslash_url:
  "safeRedirect (Str (CHR ''/'' # CHR 0x5C # ''evil.com'')) (Some ''/login'')
     = CHR ''/'' # CHR 0x5C # ''evil.com''
   \<and> safeRedirect (Str (CHR ''/'' # CHR 0x5C # ''evil.com'')) None
     = CHR ''/'' # CHR 0x5C # ''evil.com''
   \<and> safeRedirect (Str (CHR ''/'' # CHR 0x09 # ''/evil.com'')) (Some ''/login'')
     = CHR ''/'' # CHR 0x09 # ''/evil.com''
   \<and> map (\<lambda>c. if c = CHR 0x5C then CHR ''/'' else c) (CHR ''/'' # CHR 0x5C # ''evil.com'')
     = ''//evil.com''
   \<and> filter (\<lambda>c. c \<noteq> CHR 0x09) (CHR ''/'' # CHR 0x09 # ''/evil.com'') = ''//evil.com''
   \<and> safeRedirect (Str ''//evil.com'') (Some ''/login'') = ''/login''"
  by (simp add: safeRedirect_def startsWith_def DEFAULT_REDIRECT_def Let_def)

text \<open>
  C10 at the failing input: what comes back is neither the default given nor the
  default \<^verbatim>\<open>/\<close>.
\<close>

theorem safeRedirect_returns_backslash_url_witness:
  "safeRedirect (Str (CHR ''/'' # CHR 0x5C # ''evil.com'')) (Some ''/login'') \<noteq> ''/login''
   \<and> safeRedirect (Str (CHR ''/'' # CHR 0x5C # ''evil.com'')) None \<noteq> ''/''"
  using safeRedirect_returns_backslash_url by simp

end
